theory Spec2Isabelle
  imports Complex_Main
begin

text \<open>
  A model of \<^verbatim>\<open>src/analyzer/analyzer.py\<close>: the \<^verbatim>\<open>retry\<close> decorator and the class
  \<^verbatim>\<open>CodeAnalyzer\<close>, which walks a directory, reads the source files, sends their content in
  chunks to a completion endpoint and hands the parsed findings of each file to a report.

  Functions that only compute are HOL functions.  A function that can raise returns a sum,
  \<open>Inl\<close> the exception; a function with effects takes the state and returns the new state;
  a loop is a recursive function.  What the module gets from its libraries and from outside
  (the file system, the endpoint, \<^verbatim>\<open>json.loads\<close>, the token list of \<^verbatim>\<open>config.py\<close>) is a
  parameter, collected in the record \<open>env\<close>.  The first part holds the definitions, the
  second the properties.
\<close>

section \<open>Exceptions\<close>

text \<open>
  The exception classes that the analyzer module (\<^verbatim>\<open>src/analyzer/analyzer.py\<close>) and the
  library calls it makes can raise.  Every constructor stands for a subclass of Python's
  \<^verbatim>\<open>Exception\<close>; the string is the exception's message (\<^verbatim>\<open>str(e)\<close>).
  \<^verbatim>\<open>RateLimitException\<close> also carries its \<^verbatim>\<open>period_remaining\<close> attribute.
\<close>

datatype exn =
    HTTPError string
  | ConnectionError string
  | Timeout string
  | RateLimitException string rat
  | StopIteration
  | ValueError string
  | OverflowError string
  | AttributeError string
  | TypeError string
  | IndexError string
  | JSONDecodeError string
  | UnicodeDecodeError string
  | OSError string
  | GroqError string
  | OtherException string

fun str_exn :: "exn \<Rightarrow> string" where
  "str_exn (HTTPError m) = m"
| "str_exn (ConnectionError m) = m"
| "str_exn (Timeout m) = m"
| "str_exn (RateLimitException m r) = m"
| "str_exn StopIteration = []"
| "str_exn (ValueError m) = m"
| "str_exn (OverflowError m) = m"
| "str_exn (AttributeError m) = m"
| "str_exn (TypeError m) = m"
| "str_exn (IndexError m) = m"
| "str_exn (JSONDecodeError m) = m"
| "str_exn (UnicodeDecodeError m) = m"
| "str_exn (OSError m) = m"
| "str_exn (GroqError m) = m"
| "str_exn (OtherException m) = m"

section \<open>Chunking: \<^verbatim>\<open>CodeAnalyzer.split_content\<close>\<close>

text \<open>
  \<^verbatim>\<open>return [content[i:i + max_length] for i in range(0, len(content), max_length)]\<close>

  \<open>py_range i stop step\<close> lists what \<^verbatim>\<open>range(i, stop, step)\<close> yields for a positive step,
  one element per iteration.  \<open>slice xs i j\<close> is \<^verbatim>\<open>xs[i:j]\<close> for indices \<open>0 \<le> i\<close>, \<open>0 \<le> j\<close>
  (an end beyond the string is clipped, as Python does).  A Python string is a sequence of
  code points: the content is a list over any element type \<open>'c\<close>.
\<close>

function py_range :: "nat \<Rightarrow> nat \<Rightarrow> nat \<Rightarrow> nat list" where
  "py_range i stop step =
     (if step = 0 \<or> stop \<le> i then [] else i # py_range (i + step) stop step)"
  by pat_completeness auto
termination
  by (relation "measure (\<lambda>(i, stop, step). stop - i)") auto

declare py_range.simps [simp del]

definition slice :: "'c list \<Rightarrow> nat \<Rightarrow> nat \<Rightarrow> 'c list" where
  "slice xs i j = drop i (take j xs)"

text \<open>
  \<^verbatim>\<open>max_length\<close> is a Python integer.  \<^verbatim>\<open>range\<close> raises \<^verbatim>\<open>ValueError\<close> for a zero step, and
  \<^verbatim>\<open>range(0, n, step)\<close> with a negative step and \<open>0 \<le> n\<close> is empty.
\<close>

definition split_content :: "'c list \<Rightarrow> int \<Rightarrow> exn + 'c list list" where
  "split_content content max_length =
     (if max_length = 0 then Inl (ValueError ''range() arg 3 must not be zero'')
      else if max_length < 0 then Inr []
      else Inr (map (\<lambda>i. slice content i (i + nat max_length))
                    (py_range 0 (length content) (nat max_length))))"

section \<open>Time, sleeping and the retry decorator\<close>

text \<open>
  The part of the outside world that \<^verbatim>\<open>time.sleep\<close> touches: a monotonic clock (seconds,
  as exact rationals) and the durations slept so far, oldest first.  Other state extends
  this record.

  \<^verbatim>\<open>time.sleep\<close> converts the duration to a signed 64-bit count of nanoseconds and raises
  \<^verbatim>\<open>OverflowError\<close> when it does not fit; then it raises \<^verbatim>\<open>ValueError\<close> for a negative
  duration.  The conversion of an integer number of seconds is exact, and so the largest
  integer it accepts is 9223372036; the rounding of a \<^verbatim>\<open>float\<close> duration is not modelled.
  The \<^verbatim>\<open>logging\<close> calls of the module are not part of the model.
\<close>

record world =
  clock :: rat
  slept :: "rat list"

definition PY_TIME_MAX :: rat where
  "PY_TIME_MAX = 2 ^ 63 - 1"

definition sleep :: "rat \<Rightarrow> 'z world_scheme \<Rightarrow> (exn + unit) \<times> 'z world_scheme" where
  "sleep secs w =
     (if secs * 1000000000 < - PY_TIME_MAX - 1 \<or> PY_TIME_MAX < secs * 1000000000
        then (Inl (OverflowError ''timestamp too large to convert to C _PyTime_t''), w)
      else if secs < 0 then (Inl (ValueError ''sleep length must be non-negative''), w)
      else (Inr (), w\<lparr>clock := clock w + secs, slept := slept w @ [secs]\<rparr>))"

text \<open>
  \<^verbatim>\<open>retry(exceptions, tries=3, delay=1, backoff=2)\<close>.  The decorated function is a state
  transformer that returns a value or raises; \<open>exceptions e\<close> stands for
  \<^verbatim>\<open>isinstance(e, exceptions)\<close>.  \<open>wrapper_retry\<close> is the body of \<^verbatim>\<open>wrapper_retry\<close>:
  \<^verbatim>\<open>
    _tries, _delay = tries, delay
    while _tries > 1:
        try:
            return func(*args, **kwargs)
        except exceptions as e:
            time.sleep(_delay); _tries -= 1; _delay *= backoff
    return func(*args, **kwargs)
  \<close>
  with the loop variables \<^verbatim>\<open>_tries\<close> and \<^verbatim>\<open>_delay\<close> as arguments.  An exception raised by
  \<^verbatim>\<open>time.sleep\<close> inside the handler leaves the wrapper.  \<^verbatim>\<open>tries\<close>, \<^verbatim>\<open>delay\<close> and \<^verbatim>\<open>backoff\<close> are
  Python integers, as the defaults of the decorator and its one use are; \<^verbatim>\<open>float\<close> arguments
  are outside the model.
\<close>

function wrapper_retry ::
  "(exn \<Rightarrow> bool) \<Rightarrow> ('z world_scheme \<Rightarrow> (exn + 'a) \<times> 'z world_scheme) \<Rightarrow> int \<Rightarrow> int \<Rightarrow> int
     \<Rightarrow> 'z world_scheme \<Rightarrow> (exn + 'a) \<times> 'z world_scheme" where
  "wrapper_retry exceptions func tries delay backoff w =
     (if 1 < tries then
        (case func w of
           (Inr v, w1) \<Rightarrow> (Inr v, w1)
         | (Inl e, w1) \<Rightarrow>
             if exceptions e then
               (case sleep (of_int delay) w1 of
                  (Inl e', w2) \<Rightarrow> (Inl e', w2)
                | (Inr u, w2) \<Rightarrow>
                    wrapper_retry exceptions func (tries - 1) (delay * backoff) backoff w2)
             else (Inl e, w1))
      else func w)"
  by pat_completeness auto
termination
  by (relation "measure (\<lambda>(exceptions, func, tries, delay, backoff, w). nat tries)") auto

declare wrapper_retry.simps [simp del]

definition retry ::
  "(exn \<Rightarrow> bool) \<Rightarrow> int \<Rightarrow> int \<Rightarrow> int \<Rightarrow> ('z world_scheme \<Rightarrow> (exn + 'a) \<times> 'z world_scheme)
     \<Rightarrow> 'z world_scheme \<Rightarrow> (exn + 'a) \<times> 'z world_scheme" where
  "retry exceptions tries delay backoff func = wrapper_retry exceptions func tries delay backoff"

text \<open>
  Two notions for stating what the wrapper does.  \<open>retried exceptions r\<close>: the attempt's
  outcome \<open>r\<close> is an exception of the designated classes.  \<open>attempt_world func delay backoff k w\<close>:
  the world in which attempt number \<open>k\<close> (counted from 0) starts, when every earlier
  attempt raised and was followed by a sleep of \<open>delay\<close>, \<open>delay * backoff\<close>,
  \<open>delay * backoff\<^sup>2\<close>, ... seconds.
\<close>

definition retried :: "(exn \<Rightarrow> bool) \<Rightarrow> (exn + 'a) \<times> 'w \<Rightarrow> bool" where
  "retried exceptions r = (case fst r of Inl e \<Rightarrow> exceptions e | Inr v \<Rightarrow> False)"

fun attempt_world ::
  "('z world_scheme \<Rightarrow> (exn + 'a) \<times> 'z world_scheme) \<Rightarrow> int \<Rightarrow> int \<Rightarrow> nat
     \<Rightarrow> 'z world_scheme \<Rightarrow> 'z world_scheme" where
  "attempt_world func delay backoff 0 w = w"
| "attempt_world func delay backoff (Suc k) w =
     snd (sleep (of_int (delay * backoff ^ k))
            (snd (func (attempt_world func delay backoff k w))))"

text \<open>
  An operation for examples: it counts its invocations, and the outcome of invocation
  number \<open>k\<close> (from 0) is \<open>outcomes k\<close>.
\<close>

record probe = world +
  invocations :: nat

definition scripted :: "(nat \<Rightarrow> exn + 'a) \<Rightarrow> probe \<Rightarrow> (exn + 'a) \<times> probe" where
  "scripted outcomes w = (outcomes (invocations w), w\<lparr>invocations := invocations w + 1\<rparr>)"

section \<open>Decoded JSON and \<^verbatim>\<open>CodeAnalyzer.parse_issues\<close>\<close>

text \<open>
  The Python values that \<^verbatim>\<open>json.loads\<close> returns: \<^verbatim>\<open>None\<close>, \<^verbatim>\<open>bool\<close>, \<^verbatim>\<open>int\<close>, \<^verbatim>\<open>float\<close> (kept as
  its literal), \<^verbatim>\<open>str\<close>, \<^verbatim>\<open>list\<close> and \<^verbatim>\<open>dict\<close> (the items in insertion order, keys distinct).
\<close>

datatype json =
    JNull
  | JBool bool
  | JInt int
  | JFloat string
  | JString string
  | JArray "json list"
  | JObject "(string \<times> json) list"

fun type_name :: "json \<Rightarrow> string" where
  "type_name JNull = ''NoneType''"
| "type_name (JBool b) = ''bool''"
| "type_name (JInt i) = ''int''"
| "type_name (JFloat f) = ''float''"
| "type_name (JString s) = ''str''"
| "type_name (JArray xs) = ''list''"
| "type_name (JObject d) = ''dict''"

definition dict_get :: "(string \<times> json) list \<Rightarrow> string \<Rightarrow> json \<Rightarrow> json" where
  "dict_get d key dflt = (case map_of d key of Some v \<Rightarrow> v | None \<Rightarrow> dflt)"

text \<open>
  \<^verbatim>\<open>
    try:
        issues = json.loads(result).get('issues', [])
        ...
        return issues
    except json.JSONDecodeError:
        return []
  \<close>
  \<^verbatim>\<open>json.loads\<close> is a parameter: \<open>loads\<close> gives, for a text, the decoded value or the
  exception raised.  Only a \<^verbatim>\<open>dict\<close> has the method \<^verbatim>\<open>get\<close>; on any other value the attribute
  lookup raises \<^verbatim>\<open>AttributeError\<close>, which the handler does not catch.
\<close>

fun is_JSONDecodeError :: "exn \<Rightarrow> bool" where
  "is_JSONDecodeError (JSONDecodeError m) = True"
| "is_JSONDecodeError e = False"

definition parse_issues :: "(string \<Rightarrow> exn + json) \<Rightarrow> string \<Rightarrow> string \<Rightarrow> exn + json" where
  "parse_issues loads result file_path =
     (case loads result of
        Inl e \<Rightarrow> if is_JSONDecodeError e then Inr (JArray []) else Inl e
      | Inr (JObject d) \<Rightarrow> Inr (dict_get d ''issues'' (JArray []))
      | Inr v \<Rightarrow> Inl (AttributeError (type_name v @ '' object has no attribute get'')))"

text \<open>
  Iterating a decoded value, as \<^verbatim>\<open>summaries.extend(issues)\<close> does: a list yields its
  elements, a string its characters, a dict its keys; the other values are not iterable.
\<close>

fun py_iter :: "json \<Rightarrow> exn + json list" where
  "py_iter (JArray xs) = Inr xs"
| "py_iter (JString s) = Inr (map (\<lambda>c. JString [c]) s)"
| "py_iter (JObject d) = Inr (map (\<lambda>kv. JString (fst kv)) d)"
| "py_iter v = Inl (TypeError (type_name v @ '' object is not iterable''))"

section \<open>The analyzer object and its surroundings\<close>

text \<open>
  What the module takes from outside: \<^verbatim>\<open>config.tokens\<close>, the \<^verbatim>\<open>GROQ_API_KEY\<close> environment
  variable read by the \<^verbatim>\<open>Groq\<close> constructor, \<^verbatim>\<open>os.walk\<close>, the outcome of reading a file in
  either encoding, the completion endpoint (request number \<open>k\<close> for a model and a user
  content takes some time and returns the message contents of the choices, or raises),
  and \<^verbatim>\<open>json.loads\<close>.
\<close>

record env =
  tokens :: "string list"
  groq_api_key :: "string option"
  walk :: "string \<Rightarrow> (string \<times> string list \<times> string list) list"
  read_utf8 :: "string \<Rightarrow> exn + string"
  read_latin1 :: "string \<Rightarrow> exn + string"
  create :: "nat \<Rightarrow> string \<Rightarrow> string \<Rightarrow> rat \<times> (exn + string list)"
  loads :: "string \<Rightarrow> exn + json"

text \<open>
  \<^verbatim>\<open>itertools.cycle\<close> over a list: the iterator is the list rotated to its current position.
  \<^verbatim>\<open>next\<close> on the cycle of an empty list raises \<^verbatim>\<open>StopIteration\<close>; creating it does not.
\<close>

definition cycle :: "'a list \<Rightarrow> 'a list" where
  "cycle xs = xs"

definition next_cycle :: "'a list \<Rightarrow> (exn + 'a) \<times> 'a list" where
  "next_cycle it = (case it of [] \<Rightarrow> (Inl StopIteration, []) | x # xs \<Rightarrow> (Inr x, xs @ [x]))"

record groq_client =
  api_key :: string
  max_retries :: int
  timeout :: rat

definition Groq :: "string option \<Rightarrow> int \<Rightarrow> rat \<Rightarrow> exn + groq_client" where
  "Groq key retries secs =
     (case key of
        None \<Rightarrow> Inl (GroqError ''The api_key client option must be set'')
      | Some k \<Rightarrow> Inr \<lparr>api_key = k, max_retries = retries, timeout = secs\<rparr>)"

record code_analyzer =
  directory :: string
  token_cycle :: "string list"
  client :: groq_client

text \<open>
  \<^verbatim>\<open>
    def __init__(self, directory, max_retries=5, timeout=20.0):
        self.directory = directory
        self.token_cycle = cycle(tokens)
        self.client = Groq(max_retries=max_retries, timeout=timeout)
  \<close>
\<close>

definition CodeAnalyzer :: "env \<Rightarrow> string \<Rightarrow> int \<Rightarrow> rat \<Rightarrow> exn + code_analyzer" where
  "CodeAnalyzer env dir retries secs =
     (let it = cycle (tokens env) in
      case Groq (groq_api_key env) retries secs of
        Inl e \<Rightarrow> Inl e
      | Inr c \<Rightarrow> Inr \<lparr>directory = dir, token_cycle = it, client = c\<rparr>)"

definition get_next_token :: "code_analyzer \<Rightarrow> (exn + string) \<times> code_analyzer" where
  "get_next_token self =
     (case next_cycle (token_cycle self) of (r, it) \<Rightarrow> (r, self\<lparr>token_cycle := it\<rparr>))"

text \<open>
  The state of a run: the clock and sleeps, the completion requests sent so far (model and
  user content), the state of the rate limiter that decorates \<^verbatim>\<open>process_code\<close>
  (\<^verbatim>\<open>last_reset\<close>, \<^verbatim>\<open>num_calls\<close>), and the \<^verbatim>\<open>add_file_summary\<close> calls received by the report.
\<close>

record run = world +
  requests :: "(string \<times> string) list"
  last_reset :: rat
  num_calls :: nat
  file_summaries :: "(string \<times> json list) list"

section \<open>Rate limiting: \<^verbatim>\<open>limits\<close> and \<^verbatim>\<open>sleep_and_retry\<close>\<close>

text \<open>
  The two decorators of the \<^verbatim>\<open>ratelimit\<close> package, as its wrapper functions are written:
  \<^verbatim>\<open>limits\<close> resets the window when the period has elapsed, counts the call, and raises
  \<^verbatim>\<open>RateLimitException(period_remaining)\<close> instead of calling the function when the count
  exceeds \<^verbatim>\<open>max(1, min(sys.maxsize, calls))\<close>; \<^verbatim>\<open>sleep_and_retry\<close> is
  \<^verbatim>\<open>
    while True:
        try:
            return func(*args, **kargs)
        except RateLimitException as exception:
            time.sleep(exception.period_remaining)
  \<close>
  a loop with no bound of its own: its result is \<open>None\<close> when it never returns.
\<close>

definition sys_maxsize :: int where
  "sys_maxsize = 2 ^ 63 - 1"

definition clamped_calls :: "int \<Rightarrow> int" where
  "clamped_calls calls = max 1 (min sys_maxsize calls)"

definition limits ::
  "int \<Rightarrow> rat \<Rightarrow> (run \<Rightarrow> (exn + 'a) \<times> run) \<Rightarrow> run \<Rightarrow> (exn + 'a) \<times> run" where
  "limits calls period func w =
     (let period_remaining = period - (clock w - last_reset w);
          w1 = (if period_remaining \<le> 0 then w\<lparr>num_calls := 0, last_reset := clock w\<rparr> else w);
          w2 = w1\<lparr>num_calls := num_calls w1 + 1\<rparr>
      in if clamped_calls calls < int (num_calls w2)
         then (Inl (RateLimitException ''too many calls'' period_remaining), w2)
         else func w2)"

partial_function (option) sleep_and_retry ::
  "('z world_scheme \<Rightarrow> (exn + 'a) \<times> 'z world_scheme) \<Rightarrow> 'z world_scheme
     \<Rightarrow> ((exn + 'a) \<times> 'z world_scheme) option" where
  "sleep_and_retry func w =
     (case func w of
        (Inl (RateLimitException m period_remaining), w1) \<Rightarrow>
          (case sleep period_remaining w1 of
             (Inl e, w2) \<Rightarrow> Some (Inl e, w2)
           | (Inr u, w2) \<Rightarrow> sleep_and_retry func w2)
      | (r, w1) \<Rightarrow> Some (r, w1))"

text \<open>
  For stating what the two decorators do together.  \<open>admit calls period w\<close> is the state in
  which a call that enters the limiter in state \<open>w\<close> goes through: in a window that has
  elapsed, the window restarts and the call is its first; in an open window with room, the
  call is counted; in an open window that is full, the caller sleeps for the rest of the
  period and the call is the first of the next window.  \<open>never_rate_limited func\<close>: the
  decorated function does not itself raise \<^verbatim>\<open>RateLimitException\<close>.
\<close>

definition admit :: "int \<Rightarrow> rat \<Rightarrow> run \<Rightarrow> run" where
  "admit calls period w =
     (let period_remaining = period - (clock w - last_reset w) in
      if period_remaining \<le> 0 then w\<lparr>last_reset := clock w, num_calls := 1\<rparr>
      else if int (num_calls w) + 1 \<le> clamped_calls calls
        then w\<lparr>num_calls := num_calls w + 1\<rparr>
      else w\<lparr>clock := clock w + period_remaining, slept := slept w @ [period_remaining],
              last_reset := clock w + period_remaining, num_calls := 1\<rparr>)"

fun is_RateLimitException :: "exn \<Rightarrow> bool" where
  "is_RateLimitException (RateLimitException m r) = True"
| "is_RateLimitException e = False"

definition never_rate_limited :: "(run \<Rightarrow> (exn + 'a) \<times> run) \<Rightarrow> bool" where
  "never_rate_limited func = (\<forall>w. \<not> retried is_RateLimitException (func w))"

section \<open>Request dispatch: \<^verbatim>\<open>CodeAnalyzer.process_code\<close>\<close>

definition CALLS :: int where
  "CALLS = 5"

definition PERIOD :: rat where
  "PERIOD = 1"

fun network_error :: "exn \<Rightarrow> bool" where
  "network_error (HTTPError m) = True"
| "network_error (ConnectionError m) = True"
| "network_error (Timeout m) = True"
| "network_error e = False"

text \<open>
  The \<^verbatim>\<open>try\<close> block of \<^verbatim>\<open>process_code\<close>: one call of
  \<^verbatim>\<open>self.client.chat.completions.create\<close>, then \<^verbatim>\<open>chat_completion.choices[0].message.content\<close>
  (\<^verbatim>\<open>IndexError\<close> when there is no choice).
\<close>

definition request_completion ::
  "env \<Rightarrow> code_analyzer \<Rightarrow> string \<Rightarrow> string \<Rightarrow> run \<Rightarrow> (exn + string) \<times> run" where
  "request_completion env self model_token content w =
     (case create env (length (requests w)) model_token content of
        (elapsed, response) \<Rightarrow>
          (let w1 = w\<lparr>clock := clock w + elapsed,
                      requests := requests w @ [(model_token, content)]\<rparr>
           in case response of
                Inl e \<Rightarrow> (Inl e, w1)
              | Inr [] \<Rightarrow> (Inl (IndexError ''list index out of range''), w1)
              | Inr (c # cs) \<Rightarrow> (Inr c, w1)))"

text \<open>
  The function under the decorators, with its two handlers:
  \<^verbatim>\<open>
    except (HTTPError, ConnectionError, Timeout) as e:
        return f"Network error: {e}"
    except Exception as e:
        return f"Error: {e}"
  \<close>
\<close>

definition process_code_body ::
  "env \<Rightarrow> code_analyzer \<Rightarrow> string \<Rightarrow> string \<Rightarrow> string \<Rightarrow> run \<Rightarrow> (exn + string) \<times> run" where
  "process_code_body env self file_path model_token content w =
     (case request_completion env self model_token content w of
        (Inr text, w1) \<Rightarrow> (Inr text, w1)
      | (Inl e, w1) \<Rightarrow>
          if network_error e then (Inr (''Network error: '' @ str_exn e), w1)
          else (Inr (''Error: '' @ str_exn e), w1))"

text \<open>
  The decorators, applied from the innermost outwards:
  \<^verbatim>\<open>
    @sleep_and_retry
    @limits(calls=CALLS, period=PERIOD)
    @retry((HTTPError, ConnectionError, Timeout), tries=3)
    def process_code(self, file_path, model_token, content): ...
  \<close>
\<close>

definition process_code_decorators ::
  "(run \<Rightarrow> (exn + 'a) \<times> run) \<Rightarrow> run \<Rightarrow> ((exn + 'a) \<times> run) option" where
  "process_code_decorators func =
     sleep_and_retry (limits CALLS PERIOD (retry network_error 3 1 2 func))"

definition process_code ::
  "env \<Rightarrow> code_analyzer \<Rightarrow> string \<Rightarrow> string \<Rightarrow> string \<Rightarrow> run \<Rightarrow> ((exn + string) \<times> run) option" where
  "process_code env self file_path model_token content =
     process_code_decorators (process_code_body env self file_path model_token content)"

text \<open>
  The order that the specification describes, for comparison: retry wrapping the rate
  limit wrapping the call.  Here every attempt of the retry loop is a rate-limited call,
  \<open>rate_limited func\<close>: the call goes through the limiter (\<open>admit\<close>) and then runs, which
  is what \<^verbatim>\<open>sleep_and_retry\<close> over \<^verbatim>\<open>limits\<close> does with a function that does not raise
  \<^verbatim>\<open>RateLimitException\<close> itself (lemma \<open>rate_limited_sound\<close> below).
\<close>

definition rate_limited :: "(run \<Rightarrow> (exn + 'a) \<times> run) \<Rightarrow> run \<Rightarrow> (exn + 'a) \<times> run" where
  "rate_limited func w = func (admit CALLS PERIOD w)"

definition retry_outermost :: "(run \<Rightarrow> (exn + 'a) \<times> run) \<Rightarrow> run \<Rightarrow> (exn + 'a) \<times> run" where
  "retry_outermost func = retry network_error 3 1 2 (rate_limited func)"

section \<open>Files: \<^verbatim>\<open>is_supported_file\<close>, \<^verbatim>\<open>read_file\<close>\<close>

definition SUPPORTED_EXTENSIONS :: "string list" where
  "SUPPORTED_EXTENSIONS = [''.py'', ''.js'', ''.java'', ''.cpp'', ''.c'', ''.cs'', ''.ts'', ''.php'']"

definition endswith :: "string \<Rightarrow> string \<Rightarrow> bool" where
  "endswith s suffix =
     (length suffix \<le> length s \<and> drop (length s - length suffix) s = suffix)"

definition is_supported_file :: "string \<Rightarrow> bool" where
  "is_supported_file filename = list_ex (endswith filename) SUPPORTED_EXTENSIONS"

text \<open>
  \<^verbatim>\<open>
    try:
        with open(file_path, 'r', encoding='utf-8') as file: return file.read()
    except UnicodeDecodeError:
        with open(file_path, 'r', encoding='latin-1') as file: return file.read()
  \<close>
\<close>

fun is_UnicodeDecodeError :: "exn \<Rightarrow> bool" where
  "is_UnicodeDecodeError (UnicodeDecodeError m) = True"
| "is_UnicodeDecodeError e = False"

definition read_file :: "env \<Rightarrow> string \<Rightarrow> exn + string" where
  "read_file env file_path =
     (case read_utf8 env file_path of
        Inl e \<Rightarrow> if is_UnicodeDecodeError e then read_latin1 env file_path else Inl e
      | Inr content \<Rightarrow> Inr content)"

text \<open>\<^verbatim>\<open>os.path.join(root, filename)\<close> on POSIX.\<close>

definition path_join :: "string \<Rightarrow> string \<Rightarrow> string" where
  "path_join a b =
     (if take 1 b = ''/'' then b
      else if a = [] \<or> endswith a ''/'' then a @ b
      else a @ ''/'' @ b)"

section \<open>The pipeline: \<^verbatim>\<open>collect_issues\<close> and \<^verbatim>\<open>analyze\<close>\<close>

text \<open>
  \<^verbatim>\<open>
    summaries = []
    for content_chunk in contents:
        result = self.process_code(file_path, token, content_chunk)
        issues = self.parse_issues(result, file_path)
        summaries.extend(issues)
    return summaries
  \<close>
  The loop, with \<^verbatim>\<open>summaries\<close> as an accumulator.  An exception of \<^verbatim>\<open>parse_issues\<close> or of
  \<^verbatim>\<open>extend\<close> leaves the loop and the method.
\<close>

fun collect_issues_loop ::
  "env \<Rightarrow> code_analyzer \<Rightarrow> string \<Rightarrow> string \<Rightarrow> string list \<Rightarrow> json list \<Rightarrow> run
     \<Rightarrow> ((exn + json list) \<times> run) option" where
  "collect_issues_loop env self file_path token [] summaries w = Some (Inr summaries, w)"
| "collect_issues_loop env self file_path token (content_chunk # rest) summaries w =
     (case process_code env self file_path token content_chunk w of
        None \<Rightarrow> None
      | Some (Inl e, w1) \<Rightarrow> Some (Inl e, w1)
      | Some (Inr result, w1) \<Rightarrow>
          (case parse_issues (loads env) result file_path of
             Inl e \<Rightarrow> Some (Inl e, w1)
           | Inr issues \<Rightarrow>
               (case py_iter issues of
                  Inl e \<Rightarrow> Some (Inl e, w1)
                | Inr found \<Rightarrow>
                    collect_issues_loop env self file_path token rest (summaries @ found) w1)))"

definition collect_issues ::
  "env \<Rightarrow> code_analyzer \<Rightarrow> string \<Rightarrow> string \<Rightarrow> string list \<Rightarrow> run
     \<Rightarrow> ((exn + json list) \<times> run) option" where
  "collect_issues env self file_path token contents w =
     collect_issues_loop env self file_path token contents [] w"

definition add_file_summary :: "string \<Rightarrow> json list \<Rightarrow> run \<Rightarrow> run" where
  "add_file_summary file_path summaries w =
     w\<lparr>file_summaries := file_summaries w @ [(file_path, summaries)]\<rparr>"

text \<open>
  The body of the inner loop of \<^verbatim>\<open>analyze\<close>, for the files of one directory \<^verbatim>\<open>root\<close> (here \<open>rootdir\<close>):
  \<^verbatim>\<open>
    for filename in files:
        if not self.is_supported_file(filename): continue
        file_path = os.path.join(root, filename)
        current_token = self.get_next_token()
        try:
            content = self.read_file(file_path)
        except Exception as e:
            continue
        contents = self.split_content(content) if len(content) > 5000 else [content]
        summaries = self.collect_issues(file_path, current_token, contents)
        html_report.add_file_summary(file_path, summaries)
  \<close>
  The state is the analyzer object (its token cycle advances) and the run.
\<close>

fun analyze_files ::
  "env \<Rightarrow> string \<Rightarrow> string list \<Rightarrow> code_analyzer \<Rightarrow> run
     \<Rightarrow> ((exn + unit) \<times> code_analyzer \<times> run) option" where
  "analyze_files env rootdir [] self w = Some (Inr (), self, w)"
| "analyze_files env rootdir (filename # files) self w =
     (if \<not> is_supported_file filename then analyze_files env rootdir files self w
      else
        (let file_path = path_join rootdir filename in
         case get_next_token self of
           (Inl e, self1) \<Rightarrow> Some (Inl e, self1, w)
         | (Inr current_token, self1) \<Rightarrow>
             (case read_file env file_path of
                Inl e \<Rightarrow> analyze_files env rootdir files self1 w
              | Inr content \<Rightarrow>
                  (case (if 5000 < length content then split_content content 5000
                         else Inr [content]) of
                     Inl e \<Rightarrow> Some (Inl e, self1, w)
                   | Inr contents \<Rightarrow>
                       (case collect_issues env self1 file_path current_token contents w of
                          None \<Rightarrow> None
                        | Some (Inl e, w1) \<Rightarrow> Some (Inl e, self1, w1)
                        | Some (Inr summaries, w1) \<Rightarrow>
                            analyze_files env rootdir files self1
                              (add_file_summary file_path summaries w1))))))"

text \<open>The outer loop: \<^verbatim>\<open>for root, _, files in os.walk(self.directory)\<close>.\<close>

fun analyze_walk ::
  "env \<Rightarrow> (string \<times> string list \<times> string list) list \<Rightarrow> code_analyzer \<Rightarrow> run
     \<Rightarrow> ((exn + unit) \<times> code_analyzer \<times> run) option" where
  "analyze_walk env [] self w = Some (Inr (), self, w)"
| "analyze_walk env ((rootdir, dirs, files) # later) self w =
     (case analyze_files env rootdir files self w of
        None \<Rightarrow> None
      | Some (Inl e, self1, w1) \<Rightarrow> Some (Inl e, self1, w1)
      | Some (Inr u, self1, w1) \<Rightarrow> analyze_walk env later self1 w1)"

definition analyze ::
  "env \<Rightarrow> code_analyzer \<Rightarrow> run \<Rightarrow> ((exn + unit) \<times> code_analyzer \<times> run) option" where
  "analyze env self w = analyze_walk env (walk env (directory self)) self w"

section \<open>Inputs for the examples\<close>

text \<open>
  A fresh probe state, and three scripts for \<open>scripted\<close>: an operation that fails twice
  with a network error and then succeeds, one that always times out, and one that raises an
  exception outside the designated classes.
\<close>

definition probe0 :: probe where
  "probe0 = \<lparr>clock = 0, slept = [], invocations = 0\<rparr>"

definition flaky :: "nat \<Rightarrow> exn + string" where
  "flaky k = (if k = 0 then Inl (ConnectionError ''refused'')
              else if k = 1 then Inl (Timeout ''timed out'')
              else Inr ''done'')"

definition always_timeout :: "nat \<Rightarrow> exn + string" where
  "always_timeout k = Inl (Timeout ''timed out'')"

definition bad_argument :: "nat \<Rightarrow> exn + string" where
  "bad_argument k = Inl (ValueError ''bad argument'')"

text \<open>
  A fresh run (the limiter's window starts when the module is loaded, at time 0), and an
  analyzer as \<^verbatim>\<open>CodeAnalyzer("proj")\<close> builds it from one token.
\<close>

definition run0 :: run where
  "run0 = \<lparr>clock = 0, slept = [], requests = [], last_reset = 0, num_calls = 0,
           file_summaries = []\<rparr>"

definition analyzer0 :: code_analyzer where
  "analyzer0 = \<lparr>directory = ''proj'', token_cycle = [''llama3-8b-8192''],
                client = \<lparr>api_key = ''gsk'', max_retries = 5, timeout = 20\<rparr>\<rparr>"

text \<open>
  What \<^verbatim>\<open>json.loads\<close> returns on the response texts of the examples: an empty array, an
  object without the key \<^verbatim>\<open>issues\<close>, an object whose \<^verbatim>\<open>issues\<close> is \<^verbatim>\<open>null\<close>, and an object with two
  findings (\<open>findings_reply\<close>), the second with a severity outside the enumeration and a
  line that is not a number.  The other texts of the examples (the error strings of \<^verbatim>\<open>process_code\<close>) are
  not JSON.
\<close>

definition two_findings :: "json list" where
  "two_findings =
     [JObject [(''severity'', JString ''HIGH''), (''description'', JString ''eval of input''),
               (''line'', JInt 3)],
      JObject [(''severity'', JString ''URGENT''), (''description'', JString []),
               (''line'', JString ''twelve'')]]"

definition findings_reply :: string where
  \<open>findings_reply = ''{"issues": [{"severity": "HIGH", "description": "eval of input", "line": 3}, {"severity": "URGENT", "description": "", "line": "twelve"}]}''\<close>

definition loads_examples :: "string \<Rightarrow> exn + json" where
  \<open>loads_examples text =
     (if text = ''[]'' then Inr (JArray [])
      else if text = ''{}'' then Inr (JObject [])
      else if text = ''{"issues": null}'' then Inr (JObject [(''issues'', JNull)])
      else if text = findings_reply then Inr (JObject [(''issues'', JArray two_findings)])
      else Inl (JSONDecodeError ''Expecting value''))\<close>

text \<open>
  A project directory with two Python files and a text file, all readable; one token; an
  endpoint that answers every request with the given text, at once.
\<close>

definition env_replying :: "string \<Rightarrow> env" where
  "env_replying reply =
     \<lparr>tokens = [''llama3-8b-8192''], groq_api_key = Some ''gsk'',
      walk = (\<lambda>dir. [(dir, [], [''a.py'', ''notes.txt'', ''b.py''])]),
      read_utf8 = (\<lambda>path. Inr ''print(1)''),
      read_latin1 = (\<lambda>path. Inr ''print(1)''),
      create = (\<lambda>k model content. (0, Inr [reply])),
      loads = loads_examples\<rparr>"

text \<open>The same with an endpoint whose request number \<open>k\<close> has the outcome \<open>outcomes k\<close>.\<close>

definition env_scripted :: "(nat \<Rightarrow> exn + string) \<Rightarrow> env" where
  "env_scripted outcomes =
     (env_replying [])\<lparr>create := (\<lambda>k model content. (0, map_sum id (\<lambda>c. [c]) (outcomes k)))\<rparr>"

text \<open>The project of \<open>env_replying\<close> configured with an empty list of tokens.\<close>

definition env_no_tokens :: env where
  "env_no_tokens = (env_replying ''{}'')\<lparr>tokens := []\<rparr>"

section \<open>Properties of the chunker\<close>

subsection \<open>Facts about ranges and slices\<close>

lemma slice_append_drop:
  assumes "i < length xs"
  shows "slice xs i (i + step) @ drop (i + step) xs = drop i xs"
proof -
  have "drop i xs = drop i (take (i + step) xs @ drop (i + step) xs)"
    by simp
  also have "\<dots> = drop i (take (i + step) xs)
                 @ drop (i - length (take (i + step) xs)) (drop (i + step) xs)"
    by (rule drop_append)
  also have "i - length (take (i + step) xs) = 0"
    using assms by simp
  finally show ?thesis
    by (simp add: slice_def)
qed

lemma length_slice: "length (slice xs i j) = min (length xs) j - i"
  by (simp add: slice_def)

lemma slice_full: "a + m \<le> length xs \<Longrightarrow> length (slice xs a (a + m)) = m"
  by (simp add: length_slice)

lemma slice_last_bounds:
  assumes "a < length xs" "0 < m"
  shows "0 < length (slice xs a (a + m)) \<and> length (slice xs a (a + m)) \<le> m"
  using assms unfolding length_slice by linarith

lemma concat_chunks:
  "0 < step \<Longrightarrow>
   concat (map (\<lambda>i. slice xs i (i + step)) (py_range i (length xs) step)) = drop i xs"
proof (induction i "length xs" step rule: py_range.induct)
  case (1 i step)
  show ?case
  proof (cases "length xs \<le> i")
    case True
    then show ?thesis by (simp add: py_range.simps)
  next
    case False
    with 1 show ?thesis
      by (simp add: py_range.simps [of i] slice_append_drop)
  qed
qed

lemma div_add_step: "0 < (b::nat) \<Longrightarrow> (a + b) div b = Suc (a div b)"
  by simp

lemma count_step:
  fixes i stop step :: nat
  assumes "0 < step" "i < stop"
  shows "(stop - i + step - 1) div step = Suc ((stop - (i + step) + step - 1) div step)"
proof (cases "step \<le> stop - i")
  case True
  then have "stop - i + step - 1 = (stop - (i + step) + step - 1) + step"
    using assms by arith
  then have "(stop - i + step - 1) div step = ((stop - (i + step) + step - 1) + step) div step"
    by (rule arg_cong)
  also have "\<dots> = Suc ((stop - (i + step) + step - 1) div step)"
    using assms(1) by (rule div_add_step)
  finally show ?thesis .
next
  case False
  then have "stop - i + step - 1 = (stop - i - 1) + step"
    using assms by arith
  then have "(stop - i + step - 1) div step = ((stop - i - 1) + step) div step"
    by (rule arg_cong)
  also have "\<dots> = Suc ((stop - i - 1) div step)"
    using assms(1) by (rule div_add_step)
  also have "(stop - i - 1) div step = 0"
    using False assms by simp
  finally have l: "(stop - i + step - 1) div step = Suc 0" .
  have "stop - (i + step) + step - 1 = step - 1"
    using False by simp
  then have "(stop - (i + step) + step - 1) div step = 0"
    using assms by simp
  with l show ?thesis by simp
qed

text \<open>The closed form of a range: \<open>\<lceil>(stop - i) / step\<rceil>\<close> elements, \<open>step\<close> apart.\<close>

lemma py_range_eq:
  "0 < step \<Longrightarrow>
   py_range i stop step = map (\<lambda>k. i + k * step) [0 ..< (stop - i + step - 1) div step]"
proof (induction i stop step rule: py_range.induct)
  case (1 i stop step)
  show ?case
  proof (cases "stop \<le> i")
    case True
    with 1 show ?thesis by (simp add: py_range.simps)
  next
    case False
    let ?n = "(stop - (i + step) + step - 1) div step"
    have n: "(stop - i + step - 1) div step = Suc ?n"
      using False 1 by (intro count_step) simp_all
    have "py_range i stop step = i # py_range (i + step) stop step"
      using False 1 by (simp add: py_range.simps [of i])
    also have "py_range (i + step) stop step = map (\<lambda>k. i + step + k * step) [0 ..< ?n]"
      using False 1 by simp
    also have "i # map (\<lambda>k. i + step + k * step) [0 ..< ?n]
               = map (\<lambda>k. i + k * step) [0 ..< Suc ?n]"
      by (simp add: map_upt_Suc add.assoc del: upt_Suc)
    finally show ?thesis
      by (simp only: n)
  qed
qed

lemma count_upper:
  fixes L m :: nat
  assumes "0 < m"
  shows "L \<le> ((L + m - 1) div m) * m"
proof -
  have "(L + m - 1) div m * m + (L + m - 1) mod m = L + m - 1"
    by (rule div_mult_mod_eq)
  moreover have "(L + m - 1) mod m < m"
    using assms by simp
  ultimately show ?thesis by linarith
qed

lemma count_strict:
  fixes L m :: nat
  assumes "0 < m"
  shows "(L + m - 1) div m * m < L + m"
proof -
  have "(L + m - 1) div m * m + (L + m - 1) mod m = L + m - 1"
    by (rule div_mult_mod_eq)
  then show ?thesis
    using assms by linarith
qed

lemma count_lower:
  fixes L m :: nat
  assumes "0 < m" "0 < L"
  shows "((L + m - 1) div m - 1) * m < L"
proof -
  have "(L + m - 1) div m * m - m < L"
    using count_strict [OF assms(1), of L] assms(2) by linarith
  then show ?thesis
    by (simp add: diff_mult_distrib)
qed

lemma ceil_count:
  fixes L m :: nat
  assumes "0 < m"
  shows "\<lceil>real L / real m\<rceil> = int ((L + m - 1) div m)"
proof -
  let ?n = "(L + m - 1) div m"
  have "real (?n * m) < real (L + m)"
    using count_strict [OF assms] by (simp only: of_nat_less_iff)
  then have "real ?n * real m < real L + real m"
    by simp
  then have "real ?n < (real L + real m) / real m"
    using assms by (simp add: pos_less_divide_eq)
  also have "(real L + real m) / real m = real L / real m + 1"
    using assms by (simp add: add_divide_distrib)
  finally have lo: "real ?n - 1 < real L / real m"
    by simp
  have "real L \<le> real (?n * m)"
    using count_upper [OF assms] by (simp only: of_nat_le_iff)
  then have hi: "real L / real m \<le> real ?n"
    using assms by (simp add: pos_divide_le_eq)
  show ?thesis
    using lo hi by (intro ceiling_unique) simp_all
qed

text \<open>For a positive \<^verbatim>\<open>max_length\<close> the comprehension is a map over the chunk numbers.\<close>

lemma split_content_eq:
  assumes "1 \<le> max_length"
  shows "split_content content max_length =
           Inr (map (\<lambda>k. slice content (k * nat max_length) (k * nat max_length + nat max_length))
                    [0 ..< (length content + nat max_length - 1) div nat max_length])"
proof -
  have "0 < nat max_length"
    using assms by simp
  from py_range_eq [OF this, of 0 "length content"] show ?thesis
    using assms by (simp add: split_content_def comp_def)
qed

text \<open>
  Claim C7.  For every content and every \<^verbatim>\<open>max_length\<close> of at least 1, \<^verbatim>\<open>split_content\<close>
  returns normally, and the chunks it returns, concatenated in order, are the content.
\<close>

theorem split_content_concat:
  assumes "1 \<le> max_length"
  shows "\<exists>chunks. split_content content max_length = Inr chunks \<and> concat chunks = content"
proof -
  have "0 < nat max_length"
    using assms by simp
  from concat_chunks [OF this, of content 0] show ?thesis
    using assms by (simp add: split_content_def)
qed

text \<open>The content of seven characters in chunks of three.\<close>

theorem split_content_concat_witness:
  "(1::int) \<le> 3 \<and>
   (\<exists>chunks. split_content ''abcdefg'' 3 = Inr chunks \<and> concat chunks = ''abcdefg'')"
  using split_content_concat [of 3 "''abcdefg''"] by simp

text \<open>
  Claim C10.  For every \<^verbatim>\<open>max_length\<close> of at least 1, \<^verbatim>\<open>split_content\<close> of the empty
  string returns the empty list: no chunk at all, not one empty chunk.
\<close>

theorem split_content_empty:
  assumes "1 \<le> max_length"
  shows "split_content [] max_length = Inr []"
  using assms by (simp add: split_content_def py_range.simps)

theorem split_content_empty_witness:
  "(1::int) \<le> 5000 \<and> split_content ([] :: string) 5000 = Inr []"
  using split_content_empty [of 5000] by simp

text \<open>
  Claim C8, as stated, asks for exactly one chunk equal to the content whenever the length
  is at most \<^verbatim>\<open>max_length\<close>.  The empty string has length 0, which is at most 5000, and
  \<^verbatim>\<open>split_content\<close> returns no chunk for it.
\<close>

theorem split_content_single_chunk_counterexample:
  "int (length ([] :: string)) \<le> 5000 \<and> split_content ([] :: string) 5000 \<noteq> Inr [[]]"
  by (simp add: split_content_def py_range.simps)

text \<open>
  Claim C8, amended.  Let \<^verbatim>\<open>max_length\<close> be at least 1.  For a content of length \<open>L\<close> with
  \<open>1 \<le> L \<le> max_length\<close>, \<^verbatim>\<open>split_content\<close> returns exactly one chunk, the content.  For
  \<open>L > max_length\<close> it returns \<open>\<lceil>L / max_length\<rceil>\<close> chunks; chunk number \<open>j\<close> (from 0) is
  \<^verbatim>\<open>content[j * max_length : (j + 1) * max_length]\<close>, so the chunks are in order; every
  chunk but the last has length exactly \<^verbatim>\<open>max_length\<close>; the last is not empty and no longer
  than \<^verbatim>\<open>max_length\<close>.  (For \<open>L = 0\<close> see C10.)
\<close>

theorem split_content_chunk_shape:
  assumes "1 \<le> max_length"
  shows "(0 < length content \<and> int (length content) \<le> max_length \<longrightarrow>
            split_content content max_length = Inr [content])
       \<and> (max_length < int (length content) \<longrightarrow>
            (\<exists>chunks. split_content content max_length = Inr chunks
               \<and> int (length chunks) = \<lceil>real (length content) / real_of_int max_length\<rceil>
               \<and> (\<forall>j < length chunks.
                     chunks ! j = slice content (j * nat max_length)
                                               (j * nat max_length + nat max_length))
               \<and> (\<forall>j. Suc j < length chunks \<longrightarrow> length (chunks ! j) = nat max_length)
               \<and> 0 < length (last chunks) \<and> length (last chunks) \<le> nat max_length))"
proof (intro conjI impI)
  let ?m = "nat max_length"
  let ?L = "length content"
  let ?n = "(?L + ?m - 1) div ?m"
  let ?f = "\<lambda>k. slice content (k * ?m) (k * ?m + ?m)"
  have m: "0 < ?m" using assms by simp
  note eq = split_content_eq [OF assms, of content]
  {
    assume a: "0 < ?L \<and> int ?L \<le> max_length"
    then have "?L + ?m - 1 = (?L - 1) + ?m" and "?L - 1 < ?m"
      by linarith+
    then have "?n = Suc ((?L - 1) div ?m)" and "(?L - 1) div ?m = 0"
      using m by (simp_all only: div_add_step div_less)
    then have "?n = Suc 0" by simp
    moreover have "?L \<le> ?m" using a by linarith
    ultimately show "split_content content max_length = Inr [content]"
      by (simp add: eq slice_def)
  }
  {
    assume a: "max_length < int ?L"
    then have L: "0 < ?L" "?m < ?L" using assms by linarith+
    have len: "int (length (map ?f [0 ..< ?n])) = \<lceil>real ?L / real_of_int max_length\<rceil>"
      using ceil_count [OF m, of ?L] assms by simp
    have nth: "\<forall>j < length (map ?f [0 ..< ?n]). map ?f [0 ..< ?n] ! j = ?f j"
      by simp
    have npos: "0 < ?n"
      using m L by (simp add: div_greater_zero_iff)
    have full: "\<forall>j. Suc j < length (map ?f [0 ..< ?n]) \<longrightarrow> length (map ?f [0 ..< ?n] ! j) = ?m"
    proof (intro allI impI)
      fix j assume "Suc j < length (map ?f [0 ..< ?n])"
      then have j: "Suc j < ?n" by simp
      then have "Suc j \<le> ?n - 1" by simp
      then have "Suc j * ?m \<le> (?n - 1) * ?m"
        by (rule mult_le_mono1)
      also have "(?n - 1) * ?m < ?L"
        using m L(1) by (rule count_lower)
      finally have "j * ?m + ?m \<le> ?L" by simp
      then have "length (?f j) = ?m"
        by (rule slice_full)
      then show "length (map ?f [0 ..< ?n] ! j) = ?m"
        using j by simp
    qed
    have last_eq: "last (map ?f [0 ..< ?n]) = ?f (?n - 1)"
      using npos by (simp add: last_map last_upt)
    have "(?n - 1) * ?m < ?L"
      using m L(1) by (rule count_lower)
    then have "0 < length (?f (?n - 1)) \<and> length (?f (?n - 1)) \<le> ?m"
      using m by (rule slice_last_bounds)
    then have last_len: "0 < length (last (map ?f [0 ..< ?n])) \<and> length (last (map ?f [0 ..< ?n])) \<le> ?m"
      by (simp only: last_eq)
    show "\<exists>chunks. split_content content max_length = Inr chunks
               \<and> int (length chunks) = \<lceil>real (length content) / real_of_int max_length\<rceil>
               \<and> (\<forall>j < length chunks.
                     chunks ! j = slice content (j * nat max_length)
                                               (j * nat max_length + nat max_length))
               \<and> (\<forall>j. Suc j < length chunks \<longrightarrow> length (chunks ! j) = nat max_length)
               \<and> 0 < length (last chunks) \<and> length (last chunks) \<le> nat max_length"
      using len nth full last_len unfolding eq by blast
  }
qed

theorem split_content_chunk_shape_witness:
  "(1::int) \<le> 3 \<and> 0 < length ''ab'' \<and> int (length ''ab'') \<le> 3
     \<and> split_content ''ab'' 3 = Inr [''ab'']
     \<and> 3 < int (length ''abcdefg'')
     \<and> (\<exists>chunks. split_content ''abcdefg'' 3 = Inr chunks
               \<and> int (length chunks) = \<lceil>real (length ''abcdefg'') / real_of_int 3\<rceil>
               \<and> (\<forall>j < length chunks.
                     chunks ! j = slice ''abcdefg'' (j * nat 3) (j * nat 3 + nat 3))
               \<and> (\<forall>j. Suc j < length chunks \<longrightarrow> length (chunks ! j) = nat 3)
               \<and> 0 < length (last chunks) \<and> length (last chunks) \<le> nat 3)"
  using split_content_chunk_shape [of 3 "''ab''"] split_content_chunk_shape [of 3 "''abcdefg''"]
  by simp

section \<open>Properties of the retry decorator\<close>

lemma sleep_accepts:
  assumes "0 \<le> secs" "secs \<le> 9223372036"
  shows "sleep secs w = (Inr (), w\<lparr>clock := clock w + secs, slept := slept w @ [secs]\<rparr>)"
proof -
  have "secs * 1000000000 \<le> 9223372036 * 1000000000"
    using assms(2) by (rule mult_right_mono) simp
  moreover have "0 \<le> secs * 1000000000"
    using assms(1) by simp
  ultimately show ?thesis
    using assms(1) by (simp add: sleep_def PY_TIME_MAX_def)
qed

lemma sleep_accepts_int:
  assumes "0 \<le> d" "d \<le> 9223372036"
  shows "sleep (of_int d) w
           = (Inr (), w\<lparr>clock := clock w + of_int d, slept := slept w @ [of_int d]\<rparr>)"
proof (rule sleep_accepts)
  show "(0::rat) \<le> of_int d"
    using assms(1) by simp
  have "(of_int d :: rat) \<le> of_int 9223372036"
    using assms(2) by (simp only: of_int_le_iff)
  then show "(of_int d :: rat) \<le> 9223372036"
    by simp
qed

lemma attempt_world_shift:
  "attempt_world func (delay * backoff) backoff k (snd (sleep (of_int delay) (snd (func w))))
     = attempt_world func delay backoff (Suc k) w"
proof (induction k)
  case 0
  show ?case by simp
next
  case (Suc k)
  let ?w = "snd (sleep (of_int delay) (snd (func w)))"
  have e: "delay * backoff * backoff ^ k = delay * backoff ^ Suc k"
    by (simp add: mult.assoc)
  have "attempt_world func (delay * backoff) backoff (Suc k) ?w
          = snd (sleep (of_int (delay * backoff * backoff ^ k))
                  (snd (func (attempt_world func (delay * backoff) backoff k ?w))))"
    by (rule attempt_world.simps(2))
  also have "\<dots> = snd (sleep (of_int (delay * backoff ^ Suc k))
                       (snd (func (attempt_world func delay backoff (Suc k) w))))"
    by (simp only: Suc e)
  also have "\<dots> = attempt_world func delay backoff (Suc (Suc k)) w"
    by (rule attempt_world.simps(2) [symmetric])
  finally show ?case .
qed

lemma wrapper_retry_last:
  "tries \<le> 1 \<Longrightarrow> wrapper_retry exceptions func tries delay backoff w = func w"
  by (simp add: wrapper_retry.simps)

lemma wrapper_retry_stop:
  "\<not> retried exceptions (func w) \<Longrightarrow> wrapper_retry exceptions func tries delay backoff w = func w"
  by (cases "func w") (auto simp: wrapper_retry.simps [of _ _ _ _ _ w] retried_def split: sum.splits)

lemma wrapper_retry_again:
  assumes "1 < tries" "retried exceptions (func w)" "0 \<le> delay" "delay \<le> 9223372036"
  shows "wrapper_retry exceptions func tries delay backoff w
           = wrapper_retry exceptions func (tries - 1) (delay * backoff) backoff
               (snd (sleep (of_int delay) (snd (func w))))"
  using assms
  by (cases "func w")
     (auto simp: wrapper_retry.simps [of _ _ tries _ _ w] retried_def sleep_accepts_int
           split: sum.splits)

text \<open>
  The loop as a whole, for \<open>tries \<ge> 1\<close> and non-negative \<open>delay\<close> and \<open>backoff\<close> whose sleeps
  \<^verbatim>\<open>time.sleep\<close> accepts: it returns what attempt number \<open>k\<close> returned, for a \<open>k < tries\<close> such
  that every earlier attempt raised a designated exception, and attempt \<open>k\<close> is the last one
  allowed or did not.
\<close>

lemma wrapper_retry_attempts:
  assumes "1 \<le> tries" "0 \<le> delay" "0 \<le> backoff"
    and "\<And>i. int i + 1 < tries \<Longrightarrow> delay * backoff ^ i \<le> 9223372036"
  shows "\<exists>k. int k < tries
            \<and> (\<forall>i<k. retried exceptions (func (attempt_world func delay backoff i w)))
            \<and> (int k + 1 = tries \<or> \<not> retried exceptions (func (attempt_world func delay backoff k w)))
            \<and> wrapper_retry exceptions func tries delay backoff w = func (attempt_world func delay backoff k w)"
  using assms
proof (induction "nat (tries - 1)" arbitrary: tries delay w)
  case 0
  then have "tries = 1" by simp
  then have "wrapper_retry exceptions func tries delay backoff w = func w"
    by (simp add: wrapper_retry_last)
  with \<open>tries = 1\<close> show ?case
    by (intro exI [of _ 0]) simp
next
  case (Suc n)
  then have tries: "1 < tries" "n = nat (tries - 1 - 1)" "1 \<le> tries - 1"
    by linarith+
  show ?case
  proof (cases "retried exceptions (func w)")
    case False
    then show ?thesis
      using tries by (intro exI [of _ 0]) (simp add: wrapper_retry_stop)
  next
    case True
    let ?w = "snd (sleep (of_int delay) (snd (func w)))"
    have d: "0 \<le> delay * backoff"
      using Suc.prems by simp
    have first: "delay \<le> 9223372036"
      using Suc.prems(4) [of 0] tries(1) by simp
    have later: "delay * backoff * backoff ^ i \<le> 9223372036" if "int i + 1 < tries - 1" for i
      using Suc.prems(4) [of "Suc i"] that by (simp add: mult.assoc)
    from Suc.hyps(1) [OF tries(2) tries(3) d \<open>0 \<le> backoff\<close> later, of ?w]
    obtain k where k: "int k < tries - 1"
      "\<forall>i<k. retried exceptions (func (attempt_world func (delay * backoff) backoff i ?w))"
      "int k + 1 = tries - 1
         \<or> \<not> retried exceptions (func (attempt_world func (delay * backoff) backoff k ?w))"
      "wrapper_retry exceptions func (tries - 1) (delay * backoff) backoff ?w
         = func (attempt_world func (delay * backoff) backoff k ?w)"
      by blast
    have all: "\<forall>i<Suc k. retried exceptions (func (attempt_world func delay backoff i w))"
    proof (intro allI impI)
      fix i assume "i < Suc k"
      show "retried exceptions (func (attempt_world func delay backoff i w))"
      proof (cases i)
        case 0
        with True show ?thesis by simp
      next
        case (Suc j)
        with \<open>i < Suc k\<close> k(2)
        have "retried exceptions (func (attempt_world func (delay * backoff) backoff j ?w))"
          by simp
        then show ?thesis
          unfolding Suc attempt_world_shift .
      qed
    qed
    have "wrapper_retry exceptions func tries delay backoff w
            = wrapper_retry exceptions func (tries - 1) (delay * backoff) backoff ?w"
      using tries(1) True Suc.prems(2) first by (rule wrapper_retry_again)
    also have "\<dots> = func (attempt_world func delay backoff (Suc k) w)"
      unfolding k(4) attempt_world_shift ..
    finally have res: "wrapper_retry exceptions func tries delay backoff w
                         = func (attempt_world func delay backoff (Suc k) w)" .
    have stop: "int (Suc k) + 1 = tries
                  \<or> \<not> retried exceptions (func (attempt_world func delay backoff (Suc k) w))"
      using k(3) unfolding attempt_world_shift by auto
    show ?thesis
      using k(1) all stop res by (intro exI [of _ "Suc k"]) simp
  qed
qed

text \<open>
  Claim C6, as stated, puts no restriction on the arguments, and fails for some of them.  With \<^verbatim>\<open>tries=0\<close> the loop
  is skipped and the call after it is made: one attempt, which is more than \<^verbatim>\<open>tries\<close>.  With
  \<^verbatim>\<open>delay=-1\<close>, or with a delay of \<open>2\<^sup>7\<^sup>0\<close> seconds, \<^verbatim>\<open>time.sleep\<close> raises in the handler after
  the first failed attempt: the wrapper's outcome is the exception of \<^verbatim>\<open>time.sleep\<close>, which is
  the outcome of no attempt, and the operation, which would have succeeded at its third
  attempt, is attempted once.
\<close>

theorem retry_attempts_counterexample:
  "retry network_error 0 1 2 (scripted flaky) probe0
     = (Inl (ConnectionError ''refused''), \<lparr>clock = 0, slept = [], invocations = 1\<rparr>)
   \<and> retry network_error 3 (- 1) 2 (scripted flaky) probe0
     = (Inl (ValueError ''sleep length must be non-negative''),
        \<lparr>clock = 0, slept = [], invocations = 1\<rparr>)
   \<and> retry network_error 3 (2 ^ 70) 2 (scripted flaky) probe0
     = (Inl (OverflowError ''timestamp too large to convert to C _PyTime_t''),
        \<lparr>clock = 0, slept = [], invocations = 1\<rparr>)"
  by (simp add: retry_def wrapper_retry.simps scripted_def flaky_def sleep_def PY_TIME_MAX_def
                probe0_def)

text \<open>
  Claim C6, amended.  Let \<^verbatim>\<open>tries\<close>, \<^verbatim>\<open>delay\<close> and \<^verbatim>\<open>backoff\<close> be integers with \<open>tries \<ge> 1\<close>,
  \<open>delay \<ge> 0\<close> and \<open>backoff \<ge> 0\<close>, such that every sleep the loop can make, \<open>delay * backoff\<^sup>i\<close>
  for \<open>i < tries - 1\<close>, is at most 9223372036 seconds (the defaults of the decorator are 3, 1
  and 2).  The wrapper makes \<open>k + 1 \<le> tries\<close> attempts, for some \<open>k\<close>: each of the attempts
  \<open>0, \<dots>, k - 1\<close> raised a designated exception and was followed by a sleep (\<open>delay\<close> before
  the second attempt, then \<open>delay * backoff\<close>, \<open>delay * backoff\<^sup>2\<close>, ...: this is
  \<open>attempt_world\<close>); attempt \<open>k\<close> is the first whose outcome is a value or an exception
  outside the designated classes (which thus leaves at once, with no further attempt), or
  it is attempt number \<open>tries\<close>; and the wrapper's outcome, value or exception, and final
  state are exactly those of attempt \<open>k\<close>.
\<close>

theorem retry_attempts:
  assumes "1 \<le> tries" "0 \<le> delay" "0 \<le> backoff"
    and "\<And>i. int i + 1 < tries \<Longrightarrow> delay * backoff ^ i \<le> 9223372036"
  shows "\<exists>k. int k < tries
            \<and> (\<forall>i<k. retried exceptions (func (attempt_world func delay backoff i w)))
            \<and> (int k + 1 = tries \<or> \<not> retried exceptions (func (attempt_world func delay backoff k w)))
            \<and> retry exceptions tries delay backoff func w = func (attempt_world func delay backoff k w)"
  unfolding retry_def using assms by (rule wrapper_retry_attempts)

text \<open>
  With \<^verbatim>\<open>tries=3, delay=1, backoff=2\<close>: an operation that fails twice with a network error
  and succeeds at the third attempt is attempted three times, with sleeps of 1 and 2
  seconds, and its value is returned; one that always times out is attempted three times
  and its last exception leaves the wrapper, with no sleep after the last attempt; one
  that raises \<^verbatim>\<open>ValueError\<close> is attempted once.
\<close>

theorem retry_attempts_witness:
  "(1::int) \<le> 3 \<and> (0::int) \<le> 1 \<and> (0::int) \<le> 2
   \<and> (1::int) * 2 ^ 0 \<le> 9223372036 \<and> (1::int) * 2 ^ 1 \<le> 9223372036
   \<and> (\<exists>k. int k < 3
          \<and> (\<forall>i<k. retried network_error (scripted flaky (attempt_world (scripted flaky) 1 2 i probe0)))
          \<and> (int k + 1 = 3 \<or> \<not> retried network_error (scripted flaky (attempt_world (scripted flaky) 1 2 k probe0)))
          \<and> retry network_error 3 1 2 (scripted flaky) probe0
                = scripted flaky (attempt_world (scripted flaky) 1 2 k probe0))
   \<and> retry network_error 3 1 2 (scripted flaky) probe0
        = (Inr ''done'', \<lparr>clock = 3, slept = [1, 2], invocations = 3\<rparr>)
   \<and> retry network_error 3 1 2 (scripted always_timeout) probe0
        = (Inl (Timeout ''timed out''), \<lparr>clock = 3, slept = [1, 2], invocations = 3\<rparr>)
   \<and> retry network_error 3 1 2 (scripted bad_argument) probe0
        = (Inl (ValueError ''bad argument''), \<lparr>clock = 0, slept = [], invocations = 1\<rparr>)"
proof -
  have h: "(1::int) \<le> 3" "(0::int) \<le> 1" "(0::int) \<le> 2"
    by simp_all
  have b: "(1::int) * 2 ^ i \<le> 9223372036" if "int i + 1 < 3" for i
  proof -
    from that have "i = 0 \<or> i = 1" by linarith
    then show ?thesis by auto
  qed
  note ex = retry_attempts [OF h b, of network_error "scripted flaky" probe0]
  have s: "(1::int) * 2 ^ 0 \<le> 9223372036" "(1::int) * 2 ^ 1 \<le> 9223372036"
    by simp_all
  have v1: "retry network_error 3 1 2 (scripted flaky) probe0
              = (Inr ''done'', \<lparr>clock = 3, slept = [1, 2], invocations = 3\<rparr>)"
    by (simp add: retry_def wrapper_retry.simps scripted_def flaky_def sleep_def PY_TIME_MAX_def
                  probe0_def)
  have v2: "retry network_error 3 1 2 (scripted always_timeout) probe0
              = (Inl (Timeout ''timed out''), \<lparr>clock = 3, slept = [1, 2], invocations = 3\<rparr>)"
    by (simp add: retry_def wrapper_retry.simps scripted_def always_timeout_def sleep_def
                  PY_TIME_MAX_def probe0_def)
  have v3: "retry network_error 3 1 2 (scripted bad_argument) probe0
              = (Inl (ValueError ''bad argument''), \<lparr>clock = 0, slept = [], invocations = 1\<rparr>)"
    by (simp add: retry_def wrapper_retry.simps scripted_def bad_argument_def sleep_def
                  PY_TIME_MAX_def probe0_def)
  show ?thesis
    using h s ex v1 v2 v3 by (intro conjI)
qed

text \<open>
  The same for an operation whose outcomes are scripted, where the attempts and the
  sleeps can be read off the final state: after the attempts \<open>0, \<dots>, k\<close> the operation has
  been invoked \<open>k + 1\<close> more times, and the wrapper has slept \<open>delay\<close>, \<open>delay * backoff\<close>,
  ..., \<open>delay * backoff\<^sup>k\<^sup>-\<^sup>1\<close>, in this order and nothing else.
\<close>

lemma attempt_world_scripted:
  assumes "0 \<le> delay" "0 \<le> backoff"
    and "\<And>i. i < k \<Longrightarrow> delay * backoff ^ i \<le> 9223372036"
  shows "attempt_world (scripted outcomes) delay backoff k w
           = w\<lparr>clock := clock w + (\<Sum>i<k. of_int (delay * backoff ^ i)),
               slept := slept w @ map (\<lambda>i. of_int (delay * backoff ^ i)) [0..<k],
               invocations := invocations w + k\<rparr>"
  using assms(3)
proof (induction k)
  case 0
  show ?case by simp
next
  case (Suc k)
  have "0 \<le> delay * backoff ^ k"
    using assms(1,2) by simp
  moreover have "delay * backoff ^ k \<le> 9223372036"
    using Suc.prems [of k] by simp
  ultimately have sl: "sleep (of_int (delay * backoff ^ k)) v
      = (Inr (), v\<lparr>clock := clock v + of_int (delay * backoff ^ k),
                   slept := slept v @ [of_int (delay * backoff ^ k)]\<rparr>)" for v :: probe
    by (rule sleep_accepts_int)
  have ih: "attempt_world (scripted outcomes) delay backoff k w
           = w\<lparr>clock := clock w + (\<Sum>i<k. of_int (delay * backoff ^ i)),
               slept := slept w @ map (\<lambda>i. of_int (delay * backoff ^ i)) [0..<k],
               invocations := invocations w + k\<rparr>"
    using Suc.prems by (intro Suc.IH) simp
  show ?case
    by (simp only: attempt_world.simps ih sl) (simp add: scripted_def add.assoc)
qed

lemma retried_scripted:
  "retried exceptions (scripted outcomes w)
     = (\<exists>e. outcomes (invocations w) = Inl e \<and> exceptions e)"
  by (cases "outcomes (invocations w)") (simp_all add: retried_def scripted_def)

lemma retry_scripted:
  assumes "1 \<le> tries" "0 \<le> delay" "0 \<le> backoff"
    and "\<And>i. int i + 1 < tries \<Longrightarrow> delay * backoff ^ i \<le> 9223372036"
  shows "\<exists>k. int k < tries
            \<and> (\<forall>i<k. \<exists>e. outcomes (invocations w + i) = Inl e \<and> exceptions e)
            \<and> (int k + 1 = tries \<or> (\<forall>e. outcomes (invocations w + k) = Inl e \<longrightarrow> \<not> exceptions e))
            \<and> retry exceptions tries delay backoff (scripted outcomes) w
                = (outcomes (invocations w + k),
                   w\<lparr>clock := clock w + (\<Sum>i<k. of_int (delay * backoff ^ i)),
                     slept := slept w @ map (\<lambda>i. of_int (delay * backoff ^ i)) [0..<k],
                     invocations := invocations w + k + 1\<rparr>)"
proof -
  from wrapper_retry_attempts [OF assms, of exceptions "scripted outcomes" w]
  obtain k where k: "int k < tries"
    "\<forall>i<k. retried exceptions (scripted outcomes (attempt_world (scripted outcomes) delay backoff i w))"
    "int k + 1 = tries
       \<or> \<not> retried exceptions (scripted outcomes (attempt_world (scripted outcomes) delay backoff k w))"
    "wrapper_retry exceptions (scripted outcomes) tries delay backoff w
       = scripted outcomes (attempt_world (scripted outcomes) delay backoff k w)"
    by blast
  have aw: "attempt_world (scripted outcomes) delay backoff j w
           = w\<lparr>clock := clock w + (\<Sum>i<j. of_int (delay * backoff ^ i)),
               slept := slept w @ map (\<lambda>i. of_int (delay * backoff ^ i)) [0..<j],
               invocations := invocations w + j\<rparr>" if "j \<le> k" for j
  proof (rule attempt_world_scripted [OF assms(2,3)])
    fix i assume "i < j"
    with that k(1) have "int i + 1 < tries" by linarith
    then show "delay * backoff ^ i \<le> 9223372036" by (rule assms(4))
  qed
  have "\<forall>i<k. \<exists>e. outcomes (invocations w + i) = Inl e \<and> exceptions e"
    using k(2) by (simp add: retried_scripted aw)
  moreover have "int k + 1 = tries \<or> (\<forall>e. outcomes (invocations w + k) = Inl e \<longrightarrow> \<not> exceptions e)"
    using k(3) by (auto simp: retried_scripted aw)
  moreover have "retry exceptions tries delay backoff (scripted outcomes) w
                = (outcomes (invocations w + k),
                   w\<lparr>clock := clock w + (\<Sum>i<k. of_int (delay * backoff ^ i)),
                     slept := slept w @ map (\<lambda>i. of_int (delay * backoff ^ i)) [0..<k],
                     invocations := invocations w + k + 1\<rparr>)"
    unfolding retry_def k(4) by (simp add: aw scripted_def)
  ultimately show ?thesis
    using k(1) by blast
qed

section \<open>Properties of the rate limiter and of \<^verbatim>\<open>process_code\<close>\<close>

lemma sleep_and_retry_return:
  "\<not> retried is_RateLimitException (func w) \<Longrightarrow> sleep_and_retry func w = Some (func w)"
  by (subst sleep_and_retry.simps)
     (auto simp: retried_def split: prod.splits sum.splits exn.splits)

lemma sleep_and_retry_again:
  "func w = (Inl (RateLimitException m r), w1) \<Longrightarrow> 0 \<le> r \<Longrightarrow> r \<le> 9223372036 \<Longrightarrow>
   sleep_and_retry func w = sleep_and_retry func (snd (sleep r w1))"
  by (subst sleep_and_retry.simps) (simp add: sleep_accepts)

lemma clamped_calls_pos: "1 \<le> clamped_calls calls"
  by (simp add: clamped_calls_def)

lemma limits_reset:
  "period - (clock w - last_reset w) \<le> 0 \<Longrightarrow>
   limits calls period func w = func (w\<lparr>last_reset := clock w, num_calls := 1\<rparr>)"
  using clamped_calls_pos [of calls] by (simp add: limits_def Let_def)

lemma limits_count:
  "0 < period - (clock w - last_reset w) \<Longrightarrow> int (num_calls w) + 1 \<le> clamped_calls calls \<Longrightarrow>
   limits calls period func w = func (w\<lparr>num_calls := num_calls w + 1\<rparr>)"
  by (simp add: limits_def Let_def)

lemma limits_refuse:
  "0 < period - (clock w - last_reset w) \<Longrightarrow> \<not> int (num_calls w) + 1 \<le> clamped_calls calls \<Longrightarrow>
   limits calls period func w
     = (Inl (RateLimitException ''too many calls'' (period - (clock w - last_reset w))),
        w\<lparr>num_calls := num_calls w + 1\<rparr>)"
  by (simp add: limits_def Let_def)

text \<open>
  The two decorators together, around a function that does not raise
  \<^verbatim>\<open>RateLimitException\<close> itself, in a state where the rest of the period is a duration that
  \<^verbatim>\<open>time.sleep\<close> accepts: the call goes through the limiter (\<open>admit\<close>), after at most one
  sleep, and the function runs once.
\<close>

lemma rate_limited_eq:
  assumes "never_rate_limited func" "period - (clock w - last_reset w) \<le> 9223372036"
  shows "sleep_and_retry (limits calls period func) w = Some (func (admit calls period w))"
proof -
  let ?r = "period - (clock w - last_reset w)"
  have nr: "\<And>w'. \<not> retried is_RateLimitException (func w')"
    using assms(1) by (simp add: never_rate_limited_def)
  consider (reset) "?r \<le> 0"
    | (count) "0 < ?r" "int (num_calls w) + 1 \<le> clamped_calls calls"
    | (refuse) "0 < ?r" "\<not> int (num_calls w) + 1 \<le> clamped_calls calls"
    by linarith
  then show ?thesis
  proof cases
    case reset
    then have "limits calls period func w = func (admit calls period w)"
      by (simp add: limits_reset admit_def)
    then show ?thesis
      using nr by (simp add: sleep_and_retry_return)
  next
    case count
    then have "limits calls period func w = func (admit calls period w)"
      by (simp add: limits_count admit_def)
    then show ?thesis
      using nr by (simp add: sleep_and_retry_return)
  next
    case refuse
    let ?w1 = "w\<lparr>num_calls := num_calls w + 1\<rparr>"
    let ?w2 = "snd (sleep ?r ?w1)"
    have "sleep_and_retry (limits calls period func) w
            = sleep_and_retry (limits calls period func) ?w2"
      using refuse assms(2) by (intro sleep_and_retry_again [OF limits_refuse]) simp_all
    moreover have w2: "?w2 = ?w1\<lparr>clock := clock w + ?r, slept := slept w @ [?r]\<rparr>"
      using refuse assms(2) by (simp add: sleep_accepts)
    moreover have "limits calls period func ?w2 = func (admit calls period w)"
      unfolding w2 using refuse by (subst limits_reset) (simp_all add: admit_def)
    ultimately show ?thesis
      using nr by (simp add: sleep_and_retry_return)
  qed
qed

lemma sleep_not_rate_limit: "\<not> retried is_RateLimitException (sleep secs w)"
  by (simp add: sleep_def retried_def)

text \<open>
  The retry loop returns the outcome of an attempt or the exception of \<^verbatim>\<open>time.sleep\<close>: it
  raises \<^verbatim>\<open>RateLimitException\<close> only if the function does.
\<close>

lemma wrapper_retry_not_rate_limited:
  assumes "\<forall>w. \<not> retried is_RateLimitException (func w)"
  shows "\<not> retried is_RateLimitException (wrapper_retry exceptions func tries delay backoff w)"
  using assms
proof (induction exceptions func tries delay backoff w rule: wrapper_retry.induct)
  case (1 exceptions func tries delay backoff w)
  show ?case
  proof (cases "1 < tries \<and> retried exceptions (func w)")
    case False
    then have "wrapper_retry exceptions func tries delay backoff w = func w"
      by (auto simp: wrapper_retry_last wrapper_retry_stop)
    then show ?thesis
      using "1.prems" by simp
  next
    case True
    obtain e w1 where f: "func w = (Inl e, w1)" "exceptions e"
      using True by (cases "func w") (auto simp: retried_def split: sum.splits)
    show ?thesis
    proof (cases "sleep (of_int delay) w1")
      case (Pair r w2)
      show ?thesis
      proof (cases r)
        case (Inl e')
        with Pair sleep_not_rate_limit [of "of_int delay" w1] True f show ?thesis
          by (simp add: wrapper_retry.simps [of _ _ tries _ _ w] retried_def)
      next
        case (Inr u)
        have "\<not> retried is_RateLimitException
                 (wrapper_retry exceptions func (tries - 1) (delay * backoff) backoff w2)"
          using True f Pair Inr "1.prems" "1.IH" by metis
        with Pair Inr True f show ?thesis
          by (simp add: wrapper_retry.simps [of _ _ tries _ _ w])
      qed
    qed
  qed
qed

lemma never_rate_limited_retry:
  assumes "never_rate_limited func"
  shows "never_rate_limited (retry exceptions tries delay backoff func)"
  using assms wrapper_retry_not_rate_limited [of func]
  by (simp add: never_rate_limited_def retry_def)

text \<open>
  The decorators as they are stacked, around any function that does not raise
  \<^verbatim>\<open>RateLimitException\<close>: the limiter is passed once, and the retry loop runs after that.
\<close>

lemma process_code_decorators_eq:
  assumes "never_rate_limited func" "last_reset w \<le> clock w"
  shows "process_code_decorators func w
           = Some (retry network_error 3 1 2 func (admit CALLS PERIOD w))"
  unfolding process_code_decorators_def
proof (rule rate_limited_eq)
  show "never_rate_limited (retry network_error 3 1 2 func)"
    using assms(1) by (rule never_rate_limited_retry)
  show "PERIOD - (clock w - last_reset w) \<le> 9223372036"
    using assms(2) by (simp add: PERIOD_def)
qed

lemma process_code_body_returns:
  "\<exists>text w1. process_code_body env self file_path model_token content w = (Inr text, w1)"
  by (simp add: process_code_body_def split: prod.splits sum.splits)

lemma process_code_body_not_retried:
  "\<not> retried exceptions (process_code_body env self file_path model_token content w)"
  using process_code_body_returns [of env self file_path model_token content w]
  by (auto simp: retried_def)

lemma never_rate_limited_body:
  "never_rate_limited (process_code_body env self file_path model_token content)"
  by (simp add: never_rate_limited_def process_code_body_not_retried)

text \<open>
  One invocation of \<^verbatim>\<open>process_code\<close>, in a state whose limiter window did not start in the
  future: one pass of the limiter, then one run of the function body.  The retry loop
  around the body never has an exception to catch.
\<close>

lemma process_code_eq:
  assumes "last_reset w \<le> clock w"
  shows "process_code env self file_path model_token content w
     = Some (process_code_body env self file_path model_token content (admit CALLS PERIOD w))"
  using assms
  by (simp add: process_code_def process_code_decorators_eq never_rate_limited_body retry_def
                wrapper_retry_stop process_code_body_not_retried)

lemma requests_admit [simp]: "requests (admit calls period w) = requests w"
  by (simp add: admit_def Let_def)

lemma file_summaries_admit [simp]: "file_summaries (admit calls period w) = file_summaries w"
  by (simp add: admit_def Let_def)

lemma rate_limited_sound:
  "never_rate_limited func \<Longrightarrow> last_reset w \<le> clock w \<Longrightarrow>
   sleep_and_retry (limits CALLS PERIOD func) w = Some (rate_limited func w)"
  by (simp add: rate_limited_eq rate_limited_def PERIOD_def)

text \<open>
  \<^verbatim>\<open>process_code\<close> returns, and returns a string: the content of the first choice, or, when
  the request raises, one of the two error strings.  It sends exactly one request.
\<close>

lemma process_code_never_raises:
  assumes "last_reset w \<le> clock w"
  shows "\<exists>text w'. process_code env self file_path model_token content w = Some (Inr text, w')
      \<and> requests w' = requests w @ [(model_token, content)]
      \<and> file_summaries w' = file_summaries w
      \<and> text = (case snd (create env (length (requests w)) model_token content) of
                  Inl e \<Rightarrow> if network_error e then ''Network error: '' @ str_exn e
                           else ''Error: '' @ str_exn e
                | Inr [] \<Rightarrow> ''Error: list index out of range''
                | Inr (c # cs) \<Rightarrow> c)"
  unfolding process_code_eq [OF assms]
  by (auto simp: process_code_body_def request_completion_def Let_def
           split: prod.splits sum.splits list.splits)

text \<open>
  On \<^verbatim>\<open>process_code\<close> the order of the decorators has no effect of its own: since the body
  never raises, the retry loop is the identity inside the limiter and outside it alike.
\<close>

lemma process_code_orders_coincide:
  assumes "last_reset w \<le> clock w"
  shows "process_code env self file_path model_token content w
           = Some (retry_outermost (process_code_body env self file_path model_token content) w)"
proof -
  let ?body = "process_code_body env self file_path model_token content"
  have "\<not> retried network_error (rate_limited ?body w)"
    by (simp add: rate_limited_def process_code_body_not_retried)
  then have "wrapper_retry network_error (rate_limited ?body) 3 1 2 w = rate_limited ?body w"
    by (rule wrapper_retry_stop)
  then show ?thesis
    by (simp add: process_code_eq [OF assms] retry_outermost_def retry_def rate_limited_def)
qed

text \<open>
  Claim C4 says that \<^verbatim>\<open>process_code\<close> returns the synthetic error string for a network-class
  failure after the attempts of the retry policy are exhausted.  \<^verbatim>\<open>process_code\<close> does not
  let an exception out (lemma \<open>process_code_never_raises\<close>), but the retry policy has no part
  in it: the handlers of the body catch the exception before the retry wrapper can see it.
  With an endpoint that refuses the first request, times out at the second and answers the
  third, \<^verbatim>\<open>process_code\<close> returns the error string of the first failure, after one request
  and without a sleep: two of the three attempts are not made, and the third would have
  brought the answer.
\<close>

theorem process_code_returns_at_first_failure:
  "process_code (env_scripted flaky) analyzer0 ''proj/a.py'' ''llama3-8b-8192'' ''print(1)'' run0
     = Some (Inr ''Network error: refused'',
             \<lparr>clock = 0, slept = [], requests = [(''llama3-8b-8192'', ''print(1)'')],
              last_reset = 0, num_calls = 1, file_summaries = []\<rparr>)"
  by (simp add: process_code_eq process_code_body_def request_completion_def env_scripted_def
                env_replying_def flaky_def admit_def CALLS_def PERIOD_def clamped_calls_def
                sys_maxsize_def run0_def Let_def)


section \<open>Construction with an empty token list\<close>

lemma is_supported_a_py: "is_supported_file ''a.py''"
  by (simp add: is_supported_file_def SUPPORTED_EXTENSIONS_def endswith_def)

lemma CodeAnalyzer_eq:
  "CodeAnalyzer env dir retries secs =
     (case groq_api_key env of
        None \<Rightarrow> Inl (GroqError ''The api_key client option must be set'')
      | Some k \<Rightarrow> Inr \<lparr>directory = dir, token_cycle = tokens env,
                       client = \<lparr>api_key = k, max_retries = retries, timeout = secs\<rparr>\<rparr>)"
  by (simp add: CodeAnalyzer_def Groq_def cycle_def split: option.splits)

text \<open>
  With an empty token cycle every \<^verbatim>\<open>get_next_token\<close> raises \<^verbatim>\<open>StopIteration\<close>, and the loops
  of \<^verbatim>\<open>analyze\<close> pass over the files with other extensions until the first file with a
  supported one, where the exception leaves them; the state is as it was.
\<close>

lemma get_next_token_empty:
  "token_cycle self = [] \<Longrightarrow> get_next_token self = (Inl StopIteration, self)"
  by (simp add: get_next_token_def next_cycle_def)

lemma analyze_files_empty_cycle:
  assumes "token_cycle self = []"
  shows "analyze_files env rootdir files self w
           = (if list_ex is_supported_file files then Some (Inl StopIteration, self, w)
              else Some (Inr (), self, w))"
  using assms by (induction files) (simp_all add: get_next_token_empty)

lemma analyze_walk_empty_cycle:
  assumes "token_cycle self = []"
  shows "analyze_walk env tree self w
           = (if list_ex (\<lambda>(rootdir, dirs, files). list_ex is_supported_file files) tree
              then Some (Inl StopIteration, self, w)
              else Some (Inr (), self, w))"
  using assms by (induction tree) (auto simp: analyze_files_empty_cycle)

text \<open>
  Claim C2, as stated, has the construction of the analyzer fail when the list of tokens
  is empty.  \<^verbatim>\<open>__init__\<close> makes no check of the list, and \<^verbatim>\<open>cycle([])\<close> is a valid
  iterator: with the empty list (and an API key in the environment, which the \<^verbatim>\<open>Groq\<close>
  client needs whatever the tokens are) the construction returns an analyzer.
\<close>

theorem empty_tokens_counterexample:
  "tokens env_no_tokens = []
   \<and> CodeAnalyzer env_no_tokens ''proj'' 5 20
       = Inr \<lparr>directory = ''proj'', token_cycle = [],
              client = \<lparr>api_key = ''gsk'', max_retries = 5, timeout = 20\<rparr>\<rparr>"
  by (simp add: CodeAnalyzer_eq env_no_tokens_def env_replying_def)

text \<open>
  Claim C2, amended.  If the list of tokens is empty, the construction of the analyzer
  still succeeds, provided the \<^verbatim>\<open>Groq\<close> client can be built (the variable \<^verbatim>\<open>GROQ_API_KEY\<close> is
  set, which has nothing to do with the tokens).  The failure is deferred to
  \<^verbatim>\<open>get_next_token\<close>, whose every call raises \<^verbatim>\<open>StopIteration\<close>.  So \<^verbatim>\<open>analyze\<close>, on the analyzer
  just built and from any state, ends with \<^verbatim>\<open>StopIteration\<close> when the traversal meets a file
  with a supported extension, and returns normally when it meets none; in both cases it
  has sent no request and reported nothing: the state is unchanged.
\<close>

theorem empty_tokens_deferred:
  assumes "tokens env = []" "groq_api_key env = Some key"
  shows "\<exists>self. CodeAnalyzer env dir retries secs = Inr self
            \<and> get_next_token self = (Inl StopIteration, self)
            \<and> analyze env self w
                = (if list_ex (\<lambda>(rootdir, dirs, files). list_ex is_supported_file files)
                        (walk env dir)
                   then Some (Inl StopIteration, self, w)
                   else Some (Inr (), self, w))"
  using assms
  by (simp add: CodeAnalyzer_eq get_next_token_empty analyze_def analyze_walk_empty_cycle)

text \<open>
  The project with no tokens: the analyzer is built, and \<^verbatim>\<open>analyze\<close> ends with
  \<^verbatim>\<open>StopIteration\<close> (the directory holds \<^verbatim>\<open>a.py\<close>), having sent no request and reported
  nothing.
\<close>

theorem empty_tokens_deferred_witness:
  "tokens env_no_tokens = [] \<and> groq_api_key env_no_tokens = Some ''gsk''
   \<and> (\<exists>self. CodeAnalyzer env_no_tokens ''proj'' 5 20 = Inr self
          \<and> get_next_token self = (Inl StopIteration, self)
          \<and> analyze env_no_tokens self run0 = Some (Inl StopIteration, self, run0))"
  using empty_tokens_deferred [of env_no_tokens "''gsk''" "''proj''" 5 20 run0]
  by (auto simp: env_no_tokens_def env_replying_def is_supported_a_py)

section \<open>Properties of \<^verbatim>\<open>parse_issues\<close>\<close>

text \<open>
  Claim C9.  When the response decodes to a JSON object, \<^verbatim>\<open>parse_issues\<close> returns the value
  stored under the key \<^verbatim>\<open>issues\<close> as it is, so an array of findings comes back with the same
  elements, the same fields and the same order, nothing validated; when the object has no
  key \<^verbatim>\<open>issues\<close> it returns the empty list.
\<close>

theorem parse_issues_object:
  assumes "decode result = Inr (JObject d)"
  shows "parse_issues decode result file_path
           = Inr (case map_of d ''issues'' of Some issues \<Rightarrow> issues | None \<Rightarrow> JArray [])"
  using assms by (simp add: parse_issues_def dict_get_def)

text \<open>
  The reply with two findings, the second with the severity \<^verbatim>\<open>URGENT\<close> and the line
  \<^verbatim>\<open>"twelve"\<close>, gives exactly these two findings; the reply \<^verbatim>\<open>{}\<close> gives the empty list.
\<close>

theorem parse_issues_object_witness:
  "loads_examples findings_reply = Inr (JObject [(''issues'', JArray two_findings)])
   \<and> parse_issues loads_examples findings_reply ''proj/a.py'' = Inr (JArray two_findings)
   \<and> loads_examples ''{}'' = Inr (JObject [])
   \<and> parse_issues loads_examples ''{}'' ''proj/a.py'' = Inr (JArray [])"
proof -
  have a: "loads_examples findings_reply = Inr (JObject [(''issues'', JArray two_findings)])"
    by (simp add: loads_examples_def findings_reply_def)
  have b: "loads_examples ''{}'' = Inr (JObject [])"
    by (simp add: loads_examples_def)
  show ?thesis
    using a b
      parse_issues_object [of loads_examples findings_reply _ "''proj/a.py''", OF a]
      parse_issues_object [of loads_examples "''{}''" _ "''proj/a.py''", OF b]
    by simp
qed

text \<open>
  An object whose \<^verbatim>\<open>issues\<close> is not a list is passed through as well: for \<^verbatim>\<open>null\<close> the result
  is \<^verbatim>\<open>None\<close>, not the empty list.
\<close>

lemma parse_issues_null_issues:
  \<open>parse_issues loads_examples ''{"issues": null}'' ''proj/a.py'' = Inr JNull\<close>
  by (simp add: parse_issues_def loads_examples_def dict_get_def)

text \<open>
  A response that decodes, but not to an object, makes \<^verbatim>\<open>parse_issues\<close> raise: the value
  has no method \<^verbatim>\<open>get\<close>, and the handler catches \<^verbatim>\<open>JSONDecodeError\<close> only.
\<close>

lemma parse_issues_not_object:
  assumes "decode result = Inr v" "\<forall>d. v \<noteq> JObject d"
  shows "parse_issues decode result file_path
           = Inl (AttributeError (type_name v @ '' object has no attribute get''))"
  using assms by (cases v) (simp_all add: parse_issues_def)

text \<open>
  Claim C5 says that \<^verbatim>\<open>parse_issues\<close> never raises and gives the empty sequence for every
  response that is not of the documented shape.  The code does so when the response does
  not decode; on the response \<^verbatim>\<open>[]\<close>, which is valid JSON and not an object, it raises
  \<^verbatim>\<open>AttributeError\<close>.
\<close>

theorem parse_issues_array_raises:
  "parse_issues loads_examples ''[]'' ''proj/a.py''
     = Inl (AttributeError ''list object has no attribute get'')"
  by (simp add: parse_issues_def loads_examples_def)

section \<open>Properties of the traversal\<close>

text \<open>
  Claim C1 says that every file that passes the extension filter and is read gets exactly
  one \<^verbatim>\<open>add_file_summary\<close> call, whatever the responses are.  In the project of
  \<open>env_replying\<close>, with both Python files readable and the endpoint answering \<^verbatim>\<open>[]\<close>, the
  exception of \<^verbatim>\<open>parse_issues\<close> (see C5) leaves \<^verbatim>\<open>collect_issues\<close> and \<^verbatim>\<open>analyze\<close>: the run ends
  at the first file, after one request, and the report has received no call, neither for
  \<^verbatim>\<open>a.py\<close> nor for \<^verbatim>\<open>b.py\<close>.
\<close>

theorem analyze_aborts_on_array_reply:
  "analyze (env_replying ''[]'') analyzer0 run0
     = Some (Inl (AttributeError ''list object has no attribute get''), analyzer0,
             \<lparr>clock = 0, slept = [], requests = [(''llama3-8b-8192'', ''print(1)'')],
              last_reset = 0, num_calls = 1, file_summaries = []\<rparr>)"
  by (simp add: analyze_def analyzer0_def env_replying_def is_supported_file_def
                SUPPORTED_EXTENSIONS_def endswith_def path_join_def get_next_token_def
                next_cycle_def read_file_def collect_issues_def process_code_eq
                process_code_body_def request_completion_def admit_def CALLS_def PERIOD_def
                clamped_calls_def sys_maxsize_def run0_def parse_issues_def loads_examples_def
                Let_def)

text \<open>
  With the endpoint answering an object whose \<^verbatim>\<open>issues\<close> is \<^verbatim>\<open>null\<close>, \<^verbatim>\<open>parse_issues\<close> returns
  \<^verbatim>\<open>None\<close> and \<^verbatim>\<open>summaries.extend\<close> raises: the run ends the same way.
\<close>

lemma analyze_aborts_on_null_issues:
  \<open>analyze (env_replying ''{"issues": null}'') analyzer0 run0
     = Some (Inl (TypeError ''NoneType object is not iterable''), analyzer0,
             \<lparr>clock = 0, slept = [], requests = [(''llama3-8b-8192'', ''print(1)'')],
              last_reset = 0, num_calls = 1, file_summaries = []\<rparr>)\<close>
  by (simp add: analyze_def analyzer0_def env_replying_def is_supported_file_def
                SUPPORTED_EXTENSIONS_def endswith_def path_join_def get_next_token_def
                next_cycle_def read_file_def collect_issues_def process_code_eq
                process_code_body_def request_completion_def admit_def CALLS_def PERIOD_def
                clamped_calls_def sys_maxsize_def run0_def parse_issues_def loads_examples_def
                dict_get_def Let_def)

text \<open>
  The same project with the endpoint answering \<^verbatim>\<open>{}\<close>: one call for each of the two Python
  files, with an empty list of findings, and none for the text file.
\<close>

lemma analyze_reports_on_object_reply:
  "analyze (env_replying ''{}'') analyzer0 run0
     = Some (Inr (), analyzer0,
             \<lparr>clock = 0, slept = [],
              requests = [(''llama3-8b-8192'', ''print(1)''), (''llama3-8b-8192'', ''print(1)'')],
              last_reset = 0, num_calls = 2,
              file_summaries = [(''proj/a.py'', []), (''proj/b.py'', [])]\<rparr>)"
  by (simp add: analyze_def analyzer0_def env_replying_def is_supported_file_def
                SUPPORTED_EXTENSIONS_def endswith_def path_join_def get_next_token_def
                next_cycle_def read_file_def collect_issues_def process_code_eq
                process_code_body_def request_completion_def admit_def CALLS_def PERIOD_def
                clamped_calls_def sys_maxsize_def run0_def parse_issues_def loads_examples_def
                dict_get_def add_file_summary_def Let_def)

end
